theory Spec2Isabelle
  imports Complex_Main "HOL-Library.Multiset"
begin

section \<open>Python values, dictionaries and exceptions\<close>

text \<open>
  The campus data is read with \<^verbatim>\<open>json.load\<close>, so a field of an entry can hold any
  JSON value. A Python \<^verbatim>\<open>dict\<close> is an association list in insertion order (the order
  \<^verbatim>\<open>.items()\<close> iterates in); its keys are distinct in Python, and a lookup reads the
  list with \<open>map_of\<close>. A Python \<^verbatim>\<open>str\<close> is the list of the bytes of its UTF-8
  encoding, so a character outside ASCII is a lead byte followed by continuation
  bytes.
\<close>

datatype pyval =
    PNone
  | PBool bool
  | PInt int
  | PFloat rat
  | PStr string
  | PList "pyval list"
  | PDict "(string \<times> pyval) list"

type_synonym pydict = "(string \<times> pyval) list"

text \<open>
  The exceptions the modelled code can raise. \<open>APIError\<close> stands for an
  \<^verbatim>\<open>anthropic.APIError\<close> that is neither an \<^verbatim>\<open>AuthenticationError\<close> nor a
  \<^verbatim>\<open>RateLimitError\<close> and carries \<^verbatim>\<open>str(e)\<close>; \<open>OtherException\<close> is any exception
  outside the \<^verbatim>\<open>anthropic.APIError\<close> hierarchy.
\<close>

datatype py_error =
    KeyError string
  | TypeError
  | IndexError
  | OSError
  | ValueError
  | DuplicateIDError
  | AuthenticationError
  | RateLimitError
  | APIError string
  | OtherException string

text \<open>\<^verbatim>\<open>d[k]\<close>: raises \<^verbatim>\<open>KeyError\<close> when the key is missing.\<close>

definition getitem :: "pydict \<Rightarrow> string \<Rightarrow> py_error + pyval" where
  "getitem d k = (case map_of d k of None \<Rightarrow> Inl (KeyError k) | Some v \<Rightarrow> Inr v)"

text \<open>
  Two built-ins of Python are parameters of the model, taken as they are:
  \<open>format_of\<close> is \<^verbatim>\<open>format(v, "")\<close> for a value that is not a \<^verbatim>\<open>str\<close>, and
  \<open>title_of\<close> is \<^verbatim>\<open>str.title\<close> for text that has a character outside ASCII, where
  it follows the Unicode character database.
\<close>

record builtins =
  format_of :: "pyval \<Rightarrow> string"
  title_of :: "string \<Rightarrow> string"

text \<open>\<^verbatim>\<open>f"{v}"\<close>: a \<^verbatim>\<open>str\<close> is inserted as it is, any other value by the built-in.\<close>

definition py_format :: "builtins \<Rightarrow> pyval \<Rightarrow> string" where
  "py_format builtin v = (case v of PStr s \<Rightarrow> s | _ \<Rightarrow> format_of builtin v)"

text \<open>
  The characters of a string: a character starts at each byte that is not a
  UTF-8 continuation byte (\<open>0x80\<close> to \<open>0xBF\<close>) and takes the continuation bytes
  that follow it.
\<close>

definition is_continuation :: "char \<Rightarrow> bool" where
  "is_continuation c = (128 \<le> (of_char c :: nat) \<and> (of_char c :: nat) < 192)"

function utf8_chars :: "string \<Rightarrow> string list" where
  "utf8_chars [] = []"
| "utf8_chars (c # cs) =
     (c # takeWhile is_continuation cs) # utf8_chars (dropWhile is_continuation cs)"
  by pat_completeness auto
termination
  by (relation "measure length") (auto simp: less_Suc_eq_le length_dropWhile_le)

text \<open>
  Iterating a value (\<^verbatim>\<open>for item in v\<close>): a list yields its items, a string its
  characters, a dict its keys; \<^verbatim>\<open>None\<close>, booleans and numbers raise
  \<^verbatim>\<open>TypeError\<close>.
\<close>

fun py_iter :: "pyval \<Rightarrow> py_error + pyval list" where
  "py_iter (PList xs) = Inr xs"
| "py_iter (PStr s) = Inr (map PStr (utf8_chars s))"
| "py_iter (PDict d) = Inr (map (\<lambda>kv. PStr (fst kv)) d)"
| "py_iter PNone = Inl TypeError"
| "py_iter (PBool b) = Inl TypeError"
| "py_iter (PInt i) = Inl TypeError"
| "py_iter (PFloat r) = Inl TypeError"

text \<open>\<^verbatim>\<open>sep.join(xs)\<close>.\<close>

fun join :: "string \<Rightarrow> string list \<Rightarrow> string" where
  "join sep [] = []"
| "join sep [x] = x"
| "join sep (x # y # ys) = x @ sep @ join sep (y # ys)"

subsection \<open>\<^verbatim>\<open>str.replace("_", " ")\<close> and \<^verbatim>\<open>str.title()\<close>\<close>

definition ascii_lower :: string where
  "ascii_lower = ''abcdefghijklmnopqrstuvwxyz''"

definition ascii_upper :: string where
  "ascii_upper = ''ABCDEFGHIJKLMNOPQRSTUVWXYZ''"

definition is_lower :: "char \<Rightarrow> bool" where
  "is_lower c = (c \<in> set ascii_lower)"

definition is_upper :: "char \<Rightarrow> bool" where
  "is_upper c = (c \<in> set ascii_upper)"

definition to_upper :: "char \<Rightarrow> char" where
  "to_upper c = (case map_of (zip ascii_lower ascii_upper) c of Some u \<Rightarrow> u | None \<Rightarrow> c)"

definition to_lower :: "char \<Rightarrow> char" where
  "to_lower c = (case map_of (zip ascii_upper ascii_lower) c of Some l \<Rightarrow> l | None \<Rightarrow> c)"

definition replace_underscore :: "string \<Rightarrow> string" where
  "replace_underscore s = map (\<lambda>c. if c = CHR ''_'' then CHR '' '' else c) s"

text \<open>
  On ASCII text \<^verbatim>\<open>str.title\<close> walks the string remembering whether the previous
  character was cased: a lowercase letter after an uncased character is
  uppercased, an uppercase letter after a cased one is lowercased.
\<close>

fun title_from :: "bool \<Rightarrow> string \<Rightarrow> string" where
  "title_from previous_is_cased [] = []"
| "title_from previous_is_cased (c # cs) =
     (if is_lower c then
        (if previous_is_cased then c else to_upper c) # title_from True cs
      else if is_upper c then
        (if previous_is_cased then to_lower c else c) # title_from True cs
      else c # title_from False cs)"

definition is_ascii :: "char \<Rightarrow> bool" where
  "is_ascii c = ((of_char c :: nat) < 128)"

text \<open>\<^verbatim>\<open>s.title()\<close>: the walk above on ASCII text, the built-in on any other.\<close>

definition title :: "builtins \<Rightarrow> string \<Rightarrow> string" where
  "title builtin s = (if list_all is_ascii s then title_from False s else title_of builtin s)"

section \<open>The document formatter (knowledge\_base.py)\<close>

text \<open>
  The loop over \<^verbatim>\<open>entry["hours"].items()\<close>, appending one line per period to
  \<^verbatim>\<open>hours_lines\<close>.
\<close>

fun hours_loop :: "builtins \<Rightarrow> pydict \<Rightarrow> string list \<Rightarrow> string list" where
  "hours_loop builtin [] hours_lines = hours_lines"
| "hours_loop builtin ((period, time) # rest) hours_lines =
     hours_loop builtin rest
       (hours_lines @ [''  '' @ title builtin (replace_underscore period) @ '': '' @ py_format builtin time])"

definition hours_lines_of :: "builtins \<Rightarrow> pydict \<Rightarrow> string list" where
  "hours_lines_of builtin entry =
     (case map_of entry ''hours'' of
        Some (PDict hours) \<Rightarrow> hours_loop builtin hours []
      | _ \<Rightarrow> [])"

definition hours_text_of :: "string list \<Rightarrow> string" where
  "hours_text_of hours_lines =
     (if hours_lines \<noteq> [] then join [CHR 0x0A] hours_lines else ''  Not specified'')"

text \<open>\<^verbatim>\<open>entry.get("additional_info", [])\<close>, iterated by the generator expression.\<close>

definition additional_of :: "builtins \<Rightarrow> pydict \<Rightarrow> py_error + string" where
  "additional_of builtin entry =
     (case py_iter (case map_of entry ''additional_info'' of None \<Rightarrow> PList [] | Some v \<Rightarrow> v) of
        Inl e \<Rightarrow> Inl e
      | Inr items \<Rightarrow> Inr (join [CHR 0x0A] (map (\<lambda>item. ''  - '' @ py_format builtin item) items)))"

text \<open>
  \<^verbatim>\<open>entry_to_document\<close>: the hours section, then the additional-info section, then
  the f-string, whose subscripts are evaluated left to right, so the first missing
  key is the one the \<^verbatim>\<open>KeyError\<close> names.
\<close>

definition entry_to_document :: "builtins \<Rightarrow> pydict \<Rightarrow> py_error + string" where
  "entry_to_document builtin entry =
     (let hours_text = hours_text_of (hours_lines_of builtin entry) in
      case additional_of builtin entry of
        Inl e \<Rightarrow> Inl e
      | Inr additional \<Rightarrow>
     (case getitem entry ''name'' of Inl e \<Rightarrow> Inl e | Inr name \<Rightarrow>
     (case getitem entry ''type'' of Inl e \<Rightarrow> Inl e | Inr type \<Rightarrow>
     (case getitem entry ''location'' of Inl e \<Rightarrow> Inl e | Inr location \<Rightarrow>
     (case getitem entry ''description'' of Inl e \<Rightarrow> Inl e | Inr description \<Rightarrow>
     (case getitem entry ''contact'' of Inl e \<Rightarrow> Inl e | Inr contact \<Rightarrow>
        Inr (''Name: '' @ py_format builtin name @ [CHR 0x0A]
           @ ''Type: '' @ py_format builtin type @ [CHR 0x0A]
           @ ''Location: '' @ py_format builtin location @ [CHR 0x0A]
           @ ''Hours:'' @ [CHR 0x0A] @ hours_text @ [CHR 0x0A]
           @ ''Description: '' @ py_format builtin description @ [CHR 0x0A]
           @ ''Contact: '' @ py_format builtin contact @ [CHR 0x0A]
           @ ''Additional Info:'' @ [CHR 0x0A] @ additional)))))))"

text \<open>
  The keys the f-string of \<^verbatim>\<open>entry_to_document\<close> subscripts, in the order it
  evaluates them.
\<close>

definition required_fields :: "string list" where
  "required_fields = [''name'', ''type'', ''location'', ''description'', ''contact'']"

section \<open>Numbers in f-strings\<close>

text \<open>\<^verbatim>\<open>f"{i}"\<close> for a non-negative integer: its decimal digits.\<close>

definition digit_char :: "nat \<Rightarrow> char" where
  "digit_char n = ''0123456789'' ! (n mod 10)"

fun show_nat :: "nat \<Rightarrow> string" where
  "show_nat n = (if n < 10 then [digit_char n] else show_nat (n div 10) @ [digit_char n])"

text \<open>
  \<^verbatim>\<open>f"{dist:.4f}"\<close>. A distance is a finite float, modelled by its exact rational
  value. Python rounds the exact value to four decimals, ties to the even
  neighbour, and keeps the sign of a negative value that rounds to zero.
\<close>

definition round_half_even :: "rat \<Rightarrow> int" where
  "round_half_even x =
     (let f = \<lfloor>x\<rfloor>; r = x - of_int f in
      if r < 1 / 2 then f else if 1 / 2 < r then f + 1 else if even f then f else f + 1)"

definition format_4f :: "rat \<Rightarrow> string" where
  "format_4f d =
     (let n = nat (round_half_even (\<bar>d\<bar> * 10000)) in
      (if d < 0 then ''-'' else [])
      @ show_nat (n div 10000) @ ''.''
      @ [digit_char (n div 1000), digit_char (n div 100), digit_char (n div 10), digit_char n])"

section \<open>The retrieval result and the retriever (knowledge\_base.py)\<close>

text \<open>
  The dict \<^verbatim>\<open>collection.query\<close> returns: under each key one inner list per query
  text. \<^verbatim>\<open>xs[0]\<close> raises \<^verbatim>\<open>IndexError\<close> on an empty list.
\<close>

record query_result =
  qr_ids :: "pyval list list"
  qr_documents :: "string list list"
  qr_metadatas :: "pydict list list"
  qr_distances :: "rat list list"

definition first :: "'a list \<Rightarrow> py_error + 'a" where
  "first xs = (case xs of [] \<Rightarrow> Inl IndexError | x # _ \<Rightarrow> Inr x)"

text \<open>
  \<^verbatim>\<open>query_knowledge_base\<close> hands the question, as the single query text, and
  \<^verbatim>\<open>top_k\<close> to the collection's \<^verbatim>\<open>query\<close> method. The method belongs to the
  vector store and is the parameter \<open>cquery\<close>; it may raise.
\<close>

definition query_knowledge_base ::
  "('c \<Rightarrow> string list \<Rightarrow> int \<Rightarrow> py_error + query_result) \<Rightarrow> 'c \<Rightarrow> string \<Rightarrow> int
     \<Rightarrow> py_error + query_result" where
  "query_knowledge_base cquery collection query top_k = cquery collection [query] top_k"

section \<open>The RAG pipeline (rag\_pipeline.py)\<close>

record source =
  src_id :: pyval
  src_name :: pyval
  src_type :: pyval

record RAGResult =
  answer :: string
  sources :: "source list"
  retrieved_docs :: "string list"
  distances :: "rat list"

definition SYSTEM_PROMPT :: string where
  "SYSTEM_PROMPT =
     ''You are ICRA, the Intelligent Campus Resource Assistant. Your job is to help ''
   @ ''students, faculty, and visitors find information about campus facilities and ''
   @ ''services.'' @ [CHR 0x0A]
   @ [CHR 0x0A]
   @ ''Rules:'' @ [CHR 0x0A]
   @ ''- Answer ONLY based on the provided context documents. Do not make up information.''
   @ [CHR 0x0A]
   @ ''- If the context does not contain enough information to answer, say so honestly ''
   @ ''and suggest where the user might find help.'' @ [CHR 0x0A]
   @ ''- Be concise but helpful. Use bullet points when listing multiple items.''
   @ [CHR 0x0A]
   @ ''- Always mention the source facility name(s) you used to answer.'' @ [CHR 0x0A]
   @ ''- If hours or contact info are in the context, include them in your answer.''
   @ [CHR 0x0A]"

definition CLAUDE_MODEL :: string where
  "CLAUDE_MODEL = ''claude-sonnet-4-20250514''"

text \<open>
  The loop of \<^verbatim>\<open>build_context_block\<close> over
  \<^verbatim>\<open>enumerate(zip(docs, metadatas, distances), 1)\<close>: it stops at the shortest list.
\<close>

fun context_blocks :: "nat \<Rightarrow> string list \<Rightarrow> pydict list \<Rightarrow> rat list \<Rightarrow> string list" where
  "context_blocks i (doc # docs) (meta # metas) (distance # dists) =
     (''--- Source '' @ show_nat i @ '' (similarity distance: '' @ format_4f distance @ '') ---''
        @ [CHR 0x0A] @ doc @ [CHR 0x0A])
     # context_blocks (Suc i) docs metas dists"
| "context_blocks i _ _ _ = []"

definition build_context_block :: "query_result \<Rightarrow> py_error + string" where
  "build_context_block results =
     (case first (qr_documents results) of Inl e \<Rightarrow> Inl e | Inr docs \<Rightarrow>
     (case first (qr_metadatas results) of Inl e \<Rightarrow> Inl e | Inr metadatas \<Rightarrow>
     (case first (qr_distances results) of Inl e \<Rightarrow> Inl e | Inr dists \<Rightarrow>
        Inr (join [CHR 0x0A] (context_blocks 1 docs metadatas dists)))))"

text \<open>
  The retrieval log of \<^verbatim>\<open>generate_answer\<close>: one f-string per pair of
  \<^verbatim>\<open>zip(metadatas, distances)\<close>, evaluated whatever the log level, so a metadata
  dict without \<^verbatim>\<open>name\<close> or \<^verbatim>\<open>type\<close> raises \<^verbatim>\<open>KeyError\<close> here.
\<close>

fun log_retrieval ::
  "builtins \<Rightarrow> nat \<Rightarrow> pydict list \<Rightarrow> rat list \<Rightarrow> py_error + string list" where
  "log_retrieval builtin i (meta # metas) (distance # dists) =
     (case getitem meta ''name'' of Inl e \<Rightarrow> Inl e | Inr name \<Rightarrow>
     (case getitem meta ''type'' of Inl e \<Rightarrow> Inl e | Inr type \<Rightarrow>
     (case log_retrieval builtin (Suc i) metas dists of Inl e \<Rightarrow> Inl e | Inr rest \<Rightarrow>
        Inr ((''  ['' @ show_nat i @ ''] '' @ py_format builtin name
              @ '' (type='' @ py_format builtin type
              @ '', distance='' @ format_4f distance @ '')'') # rest))))"
| "log_retrieval builtin i _ _ = Inr []"

text \<open>
  The list comprehension building \<^verbatim>\<open>sources\<close>: for each index of \<^verbatim>\<open>ids\<close>, in
  order, \<^verbatim>\<open>ids[i]\<close>, \<^verbatim>\<open>metadatas[i]["name"]\<close>, \<^verbatim>\<open>metadatas[i]["type"]\<close>.
\<close>

fun build_sources :: "pyval list \<Rightarrow> pydict list \<Rightarrow> py_error + source list" where
  "build_sources [] metadatas = Inr []"
| "build_sources (i # ids) [] = Inl IndexError"
| "build_sources (i # ids) (meta # metadatas) =
     (case getitem meta ''name'' of Inl e \<Rightarrow> Inl e | Inr name \<Rightarrow>
     (case getitem meta ''type'' of Inl e \<Rightarrow> Inl e | Inr type \<Rightarrow>
     (case build_sources ids metadatas of Inl e \<Rightarrow> Inl e | Inr rest \<Rightarrow>
        Inr (\<lparr>src_id = i, src_name = name, src_type = type\<rparr> # rest))))"

text \<open>The request \<^verbatim>\<open>client.messages.create\<close> is called with.\<close>

record gen_request =
  req_api_key :: string
  req_model :: string
  req_max_tokens :: int
  req_system :: string
  req_user_content :: string

definition no_documents_answer :: string where
  "no_documents_answer =
     ''I couldn'' @ [CHR 0x27] @ ''t find any relevant information in the campus ''
   @ ''knowledge base. Please try rephrasing your question or ''
   @ ''contact Student Services for help.''"

definition missing_key_answer :: string where
  "missing_key_answer =
     ''ERROR: ANTHROPIC_API_KEY is not set. ''
   @ ''Please add it to your .env file.'' @ [CHR 0x0A]
   @ ''See .env.example for the expected format.''"

definition invalid_key_answer :: string where
  "invalid_key_answer = ''ERROR: Invalid Anthropic API key. Please check your .env file.''"

definition rate_limit_answer :: string where
  "rate_limit_answer = ''ERROR: Rate limit exceeded. Please wait a moment and try again.''"

text \<open>The text before \<^verbatim>\<open>{e}\<close>; the dash is U+2014, three bytes in UTF-8.\<close>

definition api_error_prefix :: string where
  "api_error_prefix =
     ''ERROR: Anthropic API error '' @ [CHR 0xE2, CHR 0x80, CHR 0x94] @ '' ''"

text \<open>
  The \<^verbatim>\<open>try\<close> block of \<^verbatim>\<open>generate_answer\<close>: the call and
  \<^verbatim>\<open>response.content[0].text\<close>, then the three \<^verbatim>\<open>except\<close> clauses in their order.
  An exception none of them catches propagates. The response is modelled by the
  texts of its content blocks.
\<close>

definition answer_text_of :: "py_error + string list \<Rightarrow> py_error + string" where
  "answer_text_of outcome =
     (case (case outcome of Inl e \<Rightarrow> Inl e | Inr content \<Rightarrow> first content) of
        Inr text \<Rightarrow> Inr text
      | Inl AuthenticationError \<Rightarrow> Inr invalid_key_answer
      | Inl RateLimitError \<Rightarrow> Inr rate_limit_answer
      | Inl (APIError msg) \<Rightarrow> Inr (api_error_prefix @ msg)
      | Inl e \<Rightarrow> Inl e)"

text \<open>The user turn of the prompt and the request built from it.\<close>

definition user_message_of :: "string \<Rightarrow> string \<Rightarrow> string" where
  "user_message_of question context_block =
     ''Context documents:'' @ [CHR 0x0A, CHR 0x0A] @ context_block
     @ [CHR 0x0A, CHR 0x0A] @ ''Student question: '' @ question
     @ [CHR 0x0A, CHR 0x0A]
     @ ''Provide a helpful answer based on the context above.''"

definition generation_request :: "string \<Rightarrow> string \<Rightarrow> gen_request" where
  "generation_request key user_message =
     \<lparr>req_api_key = key, req_model = CLAUDE_MODEL, req_max_tokens = 1024,
      req_system = SYSTEM_PROMPT, req_user_content = user_message\<rparr>"

text \<open>
  \<^verbatim>\<open>generate_answer\<close>. \<open>api_key\<close> is \<^verbatim>\<open>config.ANTHROPIC_API_KEY\<close>
  (\<^verbatim>\<open>os.getenv\<close> gives \<^verbatim>\<open>None\<close> or a string, and \<^verbatim>\<open>not\<close> holds of \<^verbatim>\<open>None\<close> and
  of the empty string); \<open>create\<close> is the generation service behind
  \<^verbatim>\<open>client.messages.create\<close>. The second component of the result lists the
  requests sent to the generation service during the call, also when the call
  raises.
\<close>

definition generate_answer ::
  "builtins \<Rightarrow> ('c \<Rightarrow> string list \<Rightarrow> int \<Rightarrow> py_error + query_result) \<Rightarrow> string option
     \<Rightarrow> (gen_request \<Rightarrow> py_error + string list)
     \<Rightarrow> string \<Rightarrow> 'c \<Rightarrow> int \<Rightarrow> (py_error + RAGResult) \<times> gen_request list" where
  "generate_answer builtin cquery api_key create question collection top_k =
     (case query_knowledge_base cquery collection question top_k of
        Inl e \<Rightarrow> (Inl e, [])
      | Inr results \<Rightarrow>
     (case first (qr_documents results) of Inl e \<Rightarrow> (Inl e, []) | Inr docs \<Rightarrow>
     (case first (qr_metadatas results) of Inl e \<Rightarrow> (Inl e, []) | Inr metadatas \<Rightarrow>
     (case first (qr_distances results) of Inl e \<Rightarrow> (Inl e, []) | Inr dists \<Rightarrow>
     (case first (qr_ids results) of Inl e \<Rightarrow> (Inl e, []) | Inr ids \<Rightarrow>
      if docs = [] then
        (Inr \<lparr>answer = no_documents_answer, sources = [], retrieved_docs = [],
              distances = []\<rparr>, [])
      else
     (case log_retrieval builtin 1 metadatas dists of Inl e \<Rightarrow> (Inl e, []) | Inr logged \<Rightarrow>
     (case build_context_block results of Inl e \<Rightarrow> (Inl e, []) | Inr context_block \<Rightarrow>
      let user_message = user_message_of question context_block in
      if api_key = None \<or> api_key = Some [] then
        (Inr \<lparr>answer = missing_key_answer, sources = [], retrieved_docs = docs,
              distances = dists\<rparr>, [])
      else
      let request = generation_request (the api_key) user_message in
     (case answer_text_of (create request) of
        Inl e \<Rightarrow> (Inl e, [request])
      | Inr answer_text \<Rightarrow>
     (case build_sources ids metadatas of
        Inl e \<Rightarrow> (Inl e, [request])
      | Inr srcs \<Rightarrow>
        (Inr \<lparr>answer = answer_text, sources = srcs, retrieved_docs = docs,
              distances = dists\<rparr>, [request]))))))))))"

section \<open>The vector store\<close>

text \<open>
  The repository takes its index from the ChromaDB library. An index entry holds
  the id, the document text, the metadata and the embedding vector the store
  computed for the document; a collection is the list of its entries in insertion
  order; the persistent client maps collection names to collections. The world
  also records what was done to it: \<open>Deleted\<close> (a collection was discarded),
  \<open>Loaded\<close> (the corpus file was read), \<open>Formatted\<close> (one record was rendered) and
  \<open>Added n\<close> (a batch of \<open>n\<close> documents was embedded and inserted).
\<close>

record 'v index_entry =
  ie_id :: pyval
  ie_document :: string
  ie_metadata :: pydict
  ie_embedding :: 'v

datatype event = Deleted | Loaded | Formatted | Added nat

record 'v world =
  collections :: "string \<rightharpoonup> 'v index_entry list"
  trace :: "event list"

definition collection_entries :: "string \<Rightarrow> 'v world \<Rightarrow> 'v index_entry list" where
  "collection_entries name w = (case collections w name of None \<Rightarrow> [] | Some es \<Rightarrow> es)"

text \<open>
  Modelled from the spec: the storage capability's \<^verbatim>\<open>delete(name)\<close>, which the
  ChromaDB client provides as \<^verbatim>\<open>delete_collection\<close>; it fails when there is
  nothing to discard.
\<close>

definition delete_collection :: "string \<Rightarrow> 'v world \<Rightarrow> (py_error + unit) \<times> 'v world" where
  "delete_collection name w =
     (case collections w name of
        None \<Rightarrow> (Inl ValueError, w)
      | Some es \<Rightarrow>
          (Inr (), w\<lparr>collections := (collections w)(name := None),
                      trace := trace w @ [Deleted]\<rparr>))"

text \<open>
  Modelled from the spec: the storage capability's \<^verbatim>\<open>open(name)\<close> (the client's
  \<^verbatim>\<open>get_or_create_collection\<close>), which opens the collection or creates it empty.
\<close>

definition client_get_or_create_collection :: "string \<Rightarrow> 'v world \<Rightarrow> 'v world" where
  "client_get_or_create_collection name w =
     (case collections w name of
        None \<Rightarrow> w\<lparr>collections := (collections w)(name \<mapsto> [])\<rparr>
      | Some es \<Rightarrow> w)"

text \<open>Modelled from the spec: the storage capability's \<^verbatim>\<open>count(handle)\<close>.\<close>

definition collection_count :: "string \<Rightarrow> 'v world \<Rightarrow> int" where
  "collection_count name w = int (length (collection_entries name w))"

text \<open>
  Modelled from the spec: the storage capability's batch insertion
  (\<^verbatim>\<open>collection.add\<close>): one embedding per document, all entries inserted as one
  batch keyed by id, and a duplicate id fails without inserting anything.
\<close>

definition collection_add ::
  "(string \<Rightarrow> 'v) \<Rightarrow> string \<Rightarrow> string list \<Rightarrow> pyval list \<Rightarrow> pydict list \<Rightarrow> 'v world
     \<Rightarrow> (py_error + unit) \<times> 'v world" where
  "collection_add ef name documents ids metadatas w =
     (let old = collection_entries name w in
      if \<not> distinct (map ie_id old @ ids) then (Inl DuplicateIDError, w)
      else
        (Inr (),
         w\<lparr>collections := (collections w)(name \<mapsto>
              old @ map (\<lambda>(i, d, m). \<lparr>ie_id = i, ie_document = d, ie_metadata = m,
                                         ie_embedding = ef d\<rparr>)
                      (zip ids (zip documents metadatas))),
            trace := trace w @ [Added (length ids)]\<rparr>))"

text \<open>
  Modelled from the spec: the retriever's contract for \<^verbatim>\<open>collection.query\<close>. Each
  query text is embedded with the collection's embedding function; the entries are
  ranked by ascending distance to it, ties in insertion order (\<open>sort_key\<close> is
  stable), and the first \<^verbatim>\<open>n_results\<close> are returned.
\<close>

definition collection_query ::
  "(string \<Rightarrow> 'v) \<Rightarrow> ('v \<Rightarrow> 'v \<Rightarrow> rat) \<Rightarrow> 'v index_entry list \<Rightarrow> string list \<Rightarrow> int
     \<Rightarrow> py_error + query_result" where
  "collection_query ef distance_of entries query_texts n_results =
     (let ranked = (\<lambda>q. take (nat n_results)
                      (sort_key (\<lambda>e. distance_of (ef q) (ie_embedding e)) entries))
      in Inr \<lparr>qr_ids = map (\<lambda>q. map ie_id (ranked q)) query_texts,
              qr_documents = map (\<lambda>q. map ie_document (ranked q)) query_texts,
              qr_metadatas = map (\<lambda>q. map ie_metadata (ranked q)) query_texts,
              qr_distances =
                map (\<lambda>q. map (\<lambda>e. distance_of (ef q) (ie_embedding e)) (ranked q))
                  query_texts\<rparr>)"

section \<open>The index builder (knowledge\_base.py)\<close>

definition CHROMA_COLLECTION_NAME :: string where
  "CHROMA_COLLECTION_NAME = ''campus_resources''"

text \<open>
  \<^verbatim>\<open>load_campus_data\<close>: \<open>campus_file\<close> is what opening and parsing the corpus
  file gives, the list of entries or the exception raised.
\<close>

definition load_campus_data ::
  "(py_error + pydict list) \<Rightarrow> 'v world \<Rightarrow> (py_error + pydict list) \<times> 'v world" where
  "load_campus_data campus_file w = (campus_file, w\<lparr>trace := trace w @ [Loaded]\<rparr>)"

text \<open>
  The loop of \<^verbatim>\<open>get_or_create_collection\<close> over the entries, appending to
  \<^verbatim>\<open>documents\<close>, \<^verbatim>\<open>ids\<close> and \<^verbatim>\<open>metadatas\<close>.
\<close>

fun populate_loop ::
  "builtins \<Rightarrow> pydict list \<Rightarrow> string list \<times> pyval list \<times> pydict list \<Rightarrow> 'v world
     \<Rightarrow> (py_error + string list \<times> pyval list \<times> pydict list) \<times> 'v world" where
  "populate_loop builtin [] batch w = (Inr batch, w)"
| "populate_loop builtin (entry # rest) (documents, ids, metadatas) w =
     (let w1 = w\<lparr>trace := trace w @ [Formatted]\<rparr> in
      case entry_to_document builtin entry of Inl e \<Rightarrow> (Inl e, w1) | Inr doc_text \<Rightarrow>
     (case getitem entry ''id'' of Inl e \<Rightarrow> (Inl e, w1) | Inr i \<Rightarrow>
     (case getitem entry ''name'' of Inl e \<Rightarrow> (Inl e, w1) | Inr name \<Rightarrow>
     (case getitem entry ''type'' of Inl e \<Rightarrow> (Inl e, w1) | Inr type \<Rightarrow>
     (case getitem entry ''location'' of Inl e \<Rightarrow> (Inl e, w1) | Inr location \<Rightarrow>
     (case getitem entry ''contact'' of Inl e \<Rightarrow> (Inl e, w1) | Inr contact \<Rightarrow>
        populate_loop builtin rest
          (documents @ [doc_text], ids @ [i],
           metadatas @ [[(''name'', name), (''type'', type), (''location'', location),
                         (''contact'', contact)]])
          w1))))))"

text \<open>
  \<^verbatim>\<open>get_or_create_collection\<close>. An exception of the discard under \<^verbatim>\<open>reset\<close> is
  swallowed. The result is the handle of the collection (its name) and the world
  the call leaves, also when the call raises.
\<close>

definition get_or_create_collection ::
  "bool \<Rightarrow> builtins \<Rightarrow> (string \<Rightarrow> 'v) \<Rightarrow> (py_error + pydict list) \<Rightarrow> 'v world
     \<Rightarrow> (py_error + string) \<times> 'v world" where
  "get_or_create_collection reset builtin ef campus_file w =
     (let w1 = (if reset then snd (delete_collection CHROMA_COLLECTION_NAME w) else w);
          w2 = client_get_or_create_collection CHROMA_COLLECTION_NAME w1
      in
      if collection_count CHROMA_COLLECTION_NAME w2 = 0 then
        (case load_campus_data campus_file w2 of
           (Inl e, w3) \<Rightarrow> (Inl e, w3)
         | (Inr data, w3) \<Rightarrow>
        (case populate_loop builtin data ([], [], []) w3 of
           (Inl e, w4) \<Rightarrow> (Inl e, w4)
         | (Inr (documents, ids, metadatas), w4) \<Rightarrow>
        (case collection_add ef CHROMA_COLLECTION_NAME documents ids metadatas w4 of
           (Inl e, w5) \<Rightarrow> (Inl e, w5)
         | (Inr u, w5) \<Rightarrow> (Inr CHROMA_COLLECTION_NAME, w5))))
      else (Inr CHROMA_COLLECTION_NAME, w2))"

text \<open>The number of documents embedded and inserted according to a trace.\<close>

fun docs_added :: "event list \<Rightarrow> nat" where
  "docs_added [] = 0"
| "docs_added (Added n # evs) = n + docs_added evs"
| "docs_added (ev # evs) = docs_added evs"

section \<open>Notions used to state the properties\<close>

text \<open>
  A metadata dict has the keys the pipeline reads. The index builder writes
  \<^verbatim>\<open>name\<close>, \<^verbatim>\<open>type\<close>, \<^verbatim>\<open>location\<close> and \<^verbatim>\<open>contact\<close> into every entry's metadata.
\<close>

definition has_name_and_type :: "pydict \<Rightarrow> bool" where
  "has_name_and_type meta = (map_of meta ''name'' \<noteq> None \<and> map_of meta ''type'' \<noteq> None)"

text \<open>
  The source attributions of a retrieval result: one \<open>{id, name, type}\<close> per
  retrieved id and its metadata, in retrieval order.
\<close>

definition attributions :: "pyval list \<Rightarrow> pydict list \<Rightarrow> source list" where
  "attributions ids metas =
     map (\<lambda>(i, meta). \<lparr>src_id = i, src_name = the (map_of meta ''name''),
                          src_type = the (map_of meta ''type'')\<rparr>) (zip ids metas)"

text \<open>The request the pipeline sends for a question and a retrieval result.\<close>

definition sent_request ::
  "string \<Rightarrow> string \<Rightarrow> string list \<Rightarrow> pydict list \<Rightarrow> rat list \<Rightarrow> gen_request" where
  "sent_request key question docs metas dists =
     generation_request key
       (user_message_of question (join [CHR 0x0A] (context_blocks 1 docs metas dists)))"

text \<open>Built-ins for the examples, whose strings are ASCII.\<close>

definition example_builtins :: builtins where
  "example_builtins = \<lparr>format_of = (\<lambda>v. ''?''), title_of = (\<lambda>s. s)\<rparr>"

text \<open>
  A store whose query finds one document, and one that finds none; a concrete
  retrieval capability for the examples.
\<close>

definition example_metadata :: pydict where
  "example_metadata =
     [(''name'', PStr ''Main Library''), (''type'', PStr ''facility''),
      (''location'', PStr ''Quad''), (''contact'', PStr ''555'')]"

definition example_query :: "unit \<Rightarrow> string list \<Rightarrow> int \<Rightarrow> py_error + query_result" where
  "example_query collection query_texts n_results =
     Inr \<lparr>qr_ids = [[PStr ''lib01'']], qr_documents = [[''Name: Main Library'']],
          qr_metadatas = [[example_metadata]], qr_distances = [[1 / 4]]\<rparr>"

definition empty_query :: "unit \<Rightarrow> string list \<Rightarrow> int \<Rightarrow> py_error + query_result" where
  "empty_query collection query_texts n_results =
     Inr \<lparr>qr_ids = [[]], qr_documents = [[]], qr_metadatas = [[]], qr_distances = [[]]\<rparr>"

text \<open>
  A record the index builder can index: it has an id and the required fields, and
  its additional-info value, when present, can be iterated. For such a record,
  the id, document and metadata the builder's loop appends, and the index entry
  the store makes of them.
\<close>

definition well_formed_record :: "pydict \<Rightarrow> bool" where
  "well_formed_record entry =
     (list_all (\<lambda>k. map_of entry k \<noteq> None) (''id'' # required_fields)
      \<and> (case py_iter (case map_of entry ''additional_info'' of None \<Rightarrow> PList [] | Some v \<Rightarrow> v) of
           Inl e \<Rightarrow> False | Inr items \<Rightarrow> True))"

definition record_id :: "pydict \<Rightarrow> pyval" where
  "record_id entry = the (map_of entry ''id'')"

definition record_document :: "builtins \<Rightarrow> pydict \<Rightarrow> string" where
  "record_document builtin entry =
     (case entry_to_document builtin entry of Inl e \<Rightarrow> [] | Inr doc_text \<Rightarrow> doc_text)"

definition record_metadata :: "pydict \<Rightarrow> pydict" where
  "record_metadata entry =
     [(''name'', the (map_of entry ''name'')), (''type'', the (map_of entry ''type'')),
      (''location'', the (map_of entry ''location'')),
      (''contact'', the (map_of entry ''contact''))]"

definition index_entry_of :: "builtins \<Rightarrow> (string \<Rightarrow> 'v) \<Rightarrow> pydict \<Rightarrow> 'v index_entry" where
  "index_entry_of builtin ef entry =
     \<lparr>ie_id = record_id entry, ie_document = record_document builtin entry,
      ie_metadata = record_metadata entry,
      ie_embedding = ef (record_document builtin entry)\<rparr>"

text \<open>
  The world after a build from \<open>data\<close>: the collection holds one entry per record,
  and the trace has grown by one load, one rendering per record and one batch.
\<close>

definition built_world ::
  "builtins \<Rightarrow> (string \<Rightarrow> 'v) \<Rightarrow> pydict list \<Rightarrow> 'v world \<Rightarrow> 'v world" where
  "built_world builtin ef data w =
     w\<lparr>collections := (collections w)(CHROMA_COLLECTION_NAME \<mapsto>
           map (index_entry_of builtin ef) data),
        trace := trace w @ [Loaded] @ replicate (length data) Formatted
                   @ [Added (length data)]\<rparr>"

text \<open>A one-record corpus, a world with no collection, and a three-entry collection.\<close>

definition example_record :: pydict where
  "example_record =
     [(''id'', PStr ''lib01''), (''name'', PStr ''Main Library''), (''type'', PStr ''facility''),
      (''location'', PStr ''Quad''), (''hours'', PDict [(''weekdays'', PStr ''8am-10pm'')]),
      (''description'', PStr ''Books''), (''contact'', PStr ''555'')]"

definition empty_world :: "nat world" where
  "empty_world = \<lparr>collections = Map.empty, trace = []\<rparr>"

definition example_entries :: "nat index_entry list" where
  "example_entries =
     [\<lparr>ie_id = PStr ''a'', ie_document = ''far'', ie_metadata = [], ie_embedding = 9\<rparr>,
      \<lparr>ie_id = PStr ''b'', ie_document = ''near'', ie_metadata = [], ie_embedding = 1\<rparr>,
      \<lparr>ie_id = PStr ''c'', ie_document = ''middle'', ie_metadata = [], ie_embedding = 4\<rparr>]"

section \<open>Properties of the document formatter\<close>

declare show_nat.simps [simp del]

text \<open>
  A string is iterated by characters, and title-casing consults the built-in only
  for text outside ASCII.
\<close>

lemma utf8_chars_example:
  "utf8_chars [CHR 0xC3, CHR 0xA9, CHR ''x''] = [[CHR 0xC3, CHR 0xA9], ''x'']"
  by (simp add: is_continuation_def)

lemma title_ascii:
  "list_all is_ascii s \<Longrightarrow> title builtin s = title_from False s"
  by (simp add: title_def)

lemma title_non_ascii:
  "title builtin [CHR 0xC3, CHR 0xA9, CHR ''t''] = title_of builtin [CHR 0xC3, CHR 0xA9, CHR ''t'']"
  by (simp add: title_def is_ascii_def)

lemma hours_loop_map:
  "hours_loop builtin hours acc =
     acc @ map (\<lambda>(period, time).
             ''  '' @ title builtin (replace_underscore period) @ '': '' @ py_format builtin time) hours"
  by (induction hours arbitrary: acc) auto

lemma hours_text_render:
  "hours_text_of (hours_lines_of builtin entry) =
     (case map_of entry ''hours'' of
        Some (PDict (h # hs)) \<Rightarrow>
          join [CHR 0x0A]
            (map (\<lambda>(period, time).
               ''  '' @ title builtin (replace_underscore period) @ '': '' @ py_format builtin time)
               (h # hs))
      | _ \<Rightarrow> ''  Not specified'')"
  by (simp add: hours_text_of_def hours_lines_of_def hours_loop_map
        split: option.splits pyval.splits list.splits)

lemma entry_to_document_render:
  assumes "map_of entry ''name'' = Some name"
      and "map_of entry ''type'' = Some type"
      and "map_of entry ''location'' = Some location"
      and "map_of entry ''description'' = Some description"
      and "map_of entry ''contact'' = Some contact"
      and "py_iter (case map_of entry ''additional_info'' of None \<Rightarrow> PList [] | Some v \<Rightarrow> v)
             = Inr items"
  shows "entry_to_document builtin entry =
     Inr (''Name: '' @ py_format builtin name @ [CHR 0x0A]
        @ ''Type: '' @ py_format builtin type @ [CHR 0x0A]
        @ ''Location: '' @ py_format builtin location @ [CHR 0x0A]
        @ ''Hours:'' @ [CHR 0x0A]
        @ hours_text_of (hours_lines_of builtin entry)
        @ [CHR 0x0A]
        @ ''Description: '' @ py_format builtin description @ [CHR 0x0A]
        @ ''Contact: '' @ py_format builtin contact @ [CHR 0x0A]
        @ ''Additional Info:'' @ [CHR 0x0A]
        @ join [CHR 0x0A] (map (\<lambda>item. ''  - '' @ py_format builtin item) items))"
  using assms unfolding entry_to_document_def Let_def
  by (simp add: additional_of_def getitem_def)

lemma map_of_remove_key:
  "map_of (filter (\<lambda>kv. fst kv \<noteq> k) d) k' = (if k' = k then None else map_of d k')"
  by (induction d) auto

lemma hours_lines_non_dict:
  assumes "map_of entry ''hours'' = Some v" and "\<forall>hours. v \<noteq> PDict hours"
  shows "hours_lines_of builtin entry = []"
  using assms by (cases v) (simp_all add: hours_lines_of_def)

lemma hours_lines_absent:
  assumes "map_of entry ''hours'' = None"
  shows "hours_lines_of builtin entry = []"
  using assms by (simp add: hours_lines_of_def)

text \<open>The hours key is read by the hours section only.\<close>

lemma entry_to_document_cong:
  assumes "\<And>k. k \<noteq> ''hours'' \<Longrightarrow> map_of e1 k = map_of e2 k"
      and "hours_lines_of builtin e1 = hours_lines_of builtin e2"
  shows "entry_to_document builtin e1 = entry_to_document builtin e2"
proof -
  have "map_of e1 ''additional_info'' = map_of e2 ''additional_info''"
       "map_of e1 ''name'' = map_of e2 ''name''"
       "map_of e1 ''type'' = map_of e2 ''type''"
       "map_of e1 ''location'' = map_of e2 ''location''"
       "map_of e1 ''description'' = map_of e2 ''description''"
       "map_of e1 ''contact'' = map_of e2 ''contact''"
    by (simp_all add: assms(1))
  then show ?thesis
    unfolding entry_to_document_def Let_def additional_of_def getitem_def assms(2)
    by (simp split: sum.splits option.splits)
qed

text \<open>
  Claim C6, as the code has it. A record that lacks one of the required fields
  name, type, location, description, contact makes \<open>entry_to_document\<close> fail.
  The code has no error class of its own for a malformed record: the failure is
  Python's \<^verbatim>\<open>KeyError\<close>, naming the first required field that is missing in the
  order the f-string reads them, or, when the record's additional-info value
  cannot be iterated, the \<^verbatim>\<open>TypeError\<close> of that iteration, which comes first.
\<close>

theorem entry_to_document_missing_field_fails:
  assumes "k \<in> set required_fields" and "map_of entry k = None"
  shows "(\<exists>e. entry_to_document builtin entry = Inl e) \<and>
         entry_to_document builtin entry =
           (case additional_of builtin entry of
              Inl e \<Rightarrow> Inl e
            | Inr additional \<Rightarrow>
                Inl (KeyError (hd (filter (\<lambda>f. map_of entry f = None) required_fields))))"
  using assms
  by (auto simp: entry_to_document_def required_fields_def getitem_def Let_def
        split: sum.splits option.splits)

theorem entry_to_document_missing_field_fails_witness:
  "entry_to_document example_builtins
     [(''id'', PStr ''lib01''), (''name'', PStr ''Main Library''), (''type'', PStr ''facility''),
      (''description'', PStr ''Books''), (''contact'', PStr ''555'')]
   = Inl (KeyError ''location'')"
  using entry_to_document_missing_field_fails [of "''location''"
     "[(''id'', PStr ''lib01''), (''name'', PStr ''Main Library''), (''type'', PStr ''facility''),
       (''description'', PStr ''Books''), (''contact'', PStr ''555'')]" example_builtins]
  by (simp add: required_fields_def additional_of_def)

text \<open>
  The claim as stated, with the one error class \<^verbatim>\<open>MalformedRecordError\<close>, fails:
  two records that each lack a required field fail with different built-in
  exceptions, a \<^verbatim>\<open>KeyError\<close> and a \<^verbatim>\<open>TypeError\<close>.
\<close>

theorem entry_to_document_missing_field_error_kinds:
  "entry_to_document example_builtins
     [(''id'', PStr ''gym02''), (''name'', PStr ''Gym''), (''type'', PStr ''facility''),
      (''location'', PStr ''West''), (''description'', PStr ''Fitness'')]
   = Inl (KeyError ''contact'')
   \<and> entry_to_document example_builtins
     [(''id'', PStr ''gym02''), (''type'', PStr ''facility''),
      (''location'', PStr ''West''), (''description'', PStr ''Fitness''),
      (''contact'', PStr ''556''), (''additional_info'', PNone)]
   = Inl TypeError
   \<and> KeyError ''contact'' \<noteq> TypeError"
  by (simp add: entry_to_document_def additional_of_def getitem_def)

text \<open>
  Claim C7. For a record that has all required fields (and whose additional-info
  value, when present, can be iterated), the document is this text, a function of
  the record alone, so two calls on the same record give the same bytes: name,
  type, location, the hours section, description, contact and the additional-info
  section, in this order. A non-empty hours mapping gives one line per period, in
  the mapping's order, the key with underscores replaced by spaces and title-cased
  (by \<^verbatim>\<open>str.title\<close>: the walk over ASCII letters, Python's built-in for any other
  text), then a colon and the range; an absent or empty hours mapping gives the
  single line saying that hours are not specified.
\<close>

theorem entry_to_document_renders:
  assumes "map_of entry ''name'' = Some name"
      and "map_of entry ''type'' = Some type"
      and "map_of entry ''location'' = Some location"
      and "map_of entry ''description'' = Some description"
      and "map_of entry ''contact'' = Some contact"
      and "py_iter (case map_of entry ''additional_info'' of None \<Rightarrow> PList [] | Some v \<Rightarrow> v)
             = Inr items"
  shows "entry_to_document builtin entry =
     Inr (''Name: '' @ py_format builtin name @ [CHR 0x0A]
        @ ''Type: '' @ py_format builtin type @ [CHR 0x0A]
        @ ''Location: '' @ py_format builtin location @ [CHR 0x0A]
        @ ''Hours:'' @ [CHR 0x0A]
        @ (case map_of entry ''hours'' of
             Some (PDict (h # hs)) \<Rightarrow>
               join [CHR 0x0A]
                 (map (\<lambda>(period, time).
                    ''  '' @ title builtin (replace_underscore period) @ '': ''
                    @ py_format builtin time) (h # hs))
           | _ \<Rightarrow> ''  Not specified'')
        @ [CHR 0x0A]
        @ ''Description: '' @ py_format builtin description @ [CHR 0x0A]
        @ ''Contact: '' @ py_format builtin contact @ [CHR 0x0A]
        @ ''Additional Info:'' @ [CHR 0x0A]
        @ join [CHR 0x0A] (map (\<lambda>item. ''  - '' @ py_format builtin item) items))"
  unfolding entry_to_document_render [OF assms] hours_text_render ..

theorem entry_to_document_renders_witness:
  "entry_to_document example_builtins
     [(''id'', PStr ''lib01''), (''name'', PStr ''Main Library''), (''type'', PStr ''facility''),
      (''location'', PStr ''Quad''),
      (''hours'', PDict [(''mon_fri'', PStr ''8am-10pm''), (''SAT'', PStr ''closed'')]),
      (''description'', PStr ''Books''), (''contact'', PStr ''555''),
      (''additional_info'', PList [PStr ''Quiet floor'', PStr ''Printing''])]
   = Inr (''Name: Main Library'' @ [CHR 0x0A]
        @ ''Type: facility'' @ [CHR 0x0A]
        @ ''Location: Quad'' @ [CHR 0x0A]
        @ ''Hours:'' @ [CHR 0x0A]
        @ ''  Mon Fri: 8am-10pm'' @ [CHR 0x0A]
        @ ''  Sat: closed'' @ [CHR 0x0A]
        @ ''Description: Books'' @ [CHR 0x0A]
        @ ''Contact: 555'' @ [CHR 0x0A]
        @ ''Additional Info:'' @ [CHR 0x0A]
        @ ''  - Quiet floor'' @ [CHR 0x0A]
        @ ''  - Printing'')"
  using entry_to_document_renders [of
     "[(''id'', PStr ''lib01''), (''name'', PStr ''Main Library''), (''type'', PStr ''facility''),
      (''location'', PStr ''Quad''),
      (''hours'', PDict [(''mon_fri'', PStr ''8am-10pm''), (''SAT'', PStr ''closed'')]),
      (''description'', PStr ''Books''), (''contact'', PStr ''555''),
      (''additional_info'', PList [PStr ''Quiet floor'', PStr ''Printing''])]"
     "PStr ''Main Library''" "PStr ''facility''" "PStr ''Quad''" "PStr ''Books''" "PStr ''555''"
     "[PStr ''Quiet floor'', PStr ''Printing'']" example_builtins]
  by (simp add: py_format_def title_def is_ascii_def replace_underscore_def is_lower_def is_upper_def
        to_upper_def to_lower_def ascii_lower_def ascii_upper_def)

text \<open>
  Claim C10. When the hours field is present but is not a mapping, the hours
  section is the placeholder line, and the formatter returns what it returns for
  the same record without an hours field: the value is ignored and adds no
  failure. So a record with the required fields and an additional-info value that
  can be iterated (or none) is rendered.
\<close>

theorem entry_to_document_non_dict_hours:
  assumes "map_of entry ''hours'' = Some v" and "\<forall>hours. v \<noteq> PDict hours"
  shows "hours_text_of (hours_lines_of builtin entry) = ''  Not specified'' \<and>
         entry_to_document builtin entry =
           entry_to_document builtin (filter (\<lambda>kv. fst kv \<noteq> ''hours'') entry) \<and>
         (list_all (\<lambda>k. map_of entry k \<noteq> None) required_fields \<and>
          (\<exists>items. py_iter (case map_of entry ''additional_info'' of
                               None \<Rightarrow> PList [] | Some v \<Rightarrow> v) = Inr items)
          \<longrightarrow> (\<exists>doc_text. entry_to_document builtin entry = Inr doc_text))"
proof -
  have l: "hours_lines_of builtin entry = []"
    using assms by (rule hours_lines_non_dict)
  have r: "hours_lines_of builtin (filter (\<lambda>kv. fst kv \<noteq> ''hours'') entry) = []"
    by (rule hours_lines_absent) (simp add: map_of_remove_key)
  have same: "entry_to_document builtin entry =
          entry_to_document builtin (filter (\<lambda>kv. fst kv \<noteq> ''hours'') entry)"
    by (rule entry_to_document_cong) (simp_all add: map_of_remove_key l r)
  have "\<exists>doc_text. entry_to_document builtin entry = Inr doc_text"
    if present: "list_all (\<lambda>k. map_of entry k \<noteq> None) required_fields"
      and iterable: "\<exists>items. py_iter (case map_of entry ''additional_info'' of
                               None \<Rightarrow> PList [] | Some v \<Rightarrow> v) = Inr items"
  proof -
    obtain name type location description contact items where
      "map_of entry ''name'' = Some name" "map_of entry ''type'' = Some type"
      "map_of entry ''location'' = Some location"
      "map_of entry ''description'' = Some description"
      "map_of entry ''contact'' = Some contact"
      "py_iter (case map_of entry ''additional_info'' of None \<Rightarrow> PList [] | Some v \<Rightarrow> v)
         = Inr items"
      using present iterable by (auto simp: required_fields_def)
    then show ?thesis
      by (simp add: entry_to_document_render)
  qed
  then show ?thesis
    using same by (simp add: l hours_text_of_def)
qed

theorem entry_to_document_non_dict_hours_witness:
  "entry_to_document example_builtins
     [(''name'', PStr ''Gym''), (''type'', PStr ''facility''), (''location'', PStr ''West''),
      (''hours'', PStr ''always open''), (''description'', PStr ''Fitness''),
      (''contact'', PStr ''556'')]
   = Inr (''Name: Gym'' @ [CHR 0x0A]
        @ ''Type: facility'' @ [CHR 0x0A]
        @ ''Location: West'' @ [CHR 0x0A]
        @ ''Hours:'' @ [CHR 0x0A]
        @ ''  Not specified'' @ [CHR 0x0A]
        @ ''Description: Fitness'' @ [CHR 0x0A]
        @ ''Contact: 556'' @ [CHR 0x0A]
        @ ''Additional Info:'' @ [CHR 0x0A])"
  using entry_to_document_non_dict_hours [of
     "[(''name'', PStr ''Gym''), (''type'', PStr ''facility''), (''location'', PStr ''West''),
      (''hours'', PStr ''always open''), (''description'', PStr ''Fitness''),
      (''contact'', PStr ''556'')]" "PStr ''always open''" example_builtins]
  by (simp add: entry_to_document_def additional_of_def getitem_def py_format_def
        hours_lines_of_def hours_text_of_def)

section \<open>Properties of the pipeline\<close>

lemma build_context_block_single:
  "build_context_block \<lparr>qr_ids = [ids], qr_documents = [docs], qr_metadatas = [metas],
      qr_distances = [dists]\<rparr> = Inr (join [CHR 0x0A] (context_blocks 1 docs metas dists))"
  by (simp add: build_context_block_def first_def)

lemma log_retrieval_succeeds:
  "list_all has_name_and_type metas \<Longrightarrow> \<exists>logged. log_retrieval builtin i metas dists = Inr logged"
proof (induction metas arbitrary: i dists)
  case Nil
  then show ?case by simp
next
  case (Cons meta metas)
  show ?case
  proof (cases dists)
    case Nil
    then show ?thesis by simp
  next
    case (Cons distance dists')
    obtain rest where "log_retrieval builtin (Suc i) metas dists' = Inr rest"
      using Cons.IH [of "Suc i" dists'] Cons.prems by auto
    then show ?thesis
      using Cons.prems Cons by (auto simp: has_name_and_type_def getitem_def)
  qed
qed

lemma build_sources_map:
  "list_all has_name_and_type metas \<Longrightarrow> length metas = length ids \<Longrightarrow>
   build_sources ids metas =
     Inr (map (\<lambda>(i, meta). \<lparr>src_id = i, src_name = the (map_of meta ''name''),
                               src_type = the (map_of meta ''type'')\<rparr>) (zip ids metas))"
proof (induction ids metas rule: build_sources.induct)
  case (3 i ids meta metadatas)
  then show ?case
    by (auto simp: has_name_and_type_def getitem_def)
qed simp_all

text \<open>
  What \<open>generate_answer\<close> does once the retrieval has found documents whose
  metadata carry a name and a type.
\<close>

lemma generate_answer_retrieved:
  assumes "query_knowledge_base cquery collection question top_k =
             Inr \<lparr>qr_ids = [ids], qr_documents = [docs], qr_metadatas = [metas],
                  qr_distances = [dists]\<rparr>"
      and "docs \<noteq> []"
      and "list_all has_name_and_type metas"
  shows "generate_answer builtin cquery api_key create question collection top_k =
     (if api_key = None \<or> api_key = Some [] then
        (Inr \<lparr>answer = missing_key_answer, sources = [], retrieved_docs = docs,
              distances = dists\<rparr>, [])
      else
        let request = generation_request (the api_key)
              (user_message_of question (join [CHR 0x0A] (context_blocks 1 docs metas dists)))
        in
        (case answer_text_of (create request) of
           Inl e \<Rightarrow> (Inl e, [request])
         | Inr answer_text \<Rightarrow>
        (case build_sources ids metas of
           Inl e \<Rightarrow> (Inl e, [request])
         | Inr srcs \<Rightarrow>
           (Inr \<lparr>answer = answer_text, sources = srcs, retrieved_docs = docs,
                 distances = dists\<rparr>, [request]))))"
proof -
  obtain logged where l: "log_retrieval builtin (Suc 0) metas dists = Inr logged"
    using log_retrieval_succeeds [OF assms(3)] by blast
  show ?thesis
    unfolding generate_answer_def assms(1)
    by (simp add: first_def l build_context_block_single assms(2) Let_def)
qed

lemma generate_answer_attempted:
  assumes "query_knowledge_base cquery collection question top_k =
             Inr \<lparr>qr_ids = [ids], qr_documents = [docs], qr_metadatas = [metas],
                  qr_distances = [dists]\<rparr>"
      and "docs \<noteq> []"
      and "list_all has_name_and_type metas"
      and "length metas = length ids"
      and "api_key = Some key" and "key \<noteq> []"
  shows "generate_answer builtin cquery api_key create question collection top_k =
     (case answer_text_of (create (sent_request key question docs metas dists)) of
        Inl e \<Rightarrow> (Inl e, [sent_request key question docs metas dists])
      | Inr answer_text \<Rightarrow>
          (Inr \<lparr>answer = answer_text, sources = attributions ids metas,
                retrieved_docs = docs, distances = dists\<rparr>,
           [sent_request key question docs metas dists]))"
  unfolding generate_answer_retrieved [OF assms(1-3)] attributions_def sent_request_def
  using assms(5,6) by (simp add: build_sources_map [OF assms(3,4)] Let_def split: sum.splits)

lemma api_error_text_distinct:
  "invalid_key_answer \<noteq> rate_limit_answer"
  "api_error_prefix @ msg \<noteq> invalid_key_answer"
  "api_error_prefix @ msg \<noteq> rate_limit_answer"
  by (simp_all add: invalid_key_answer_def rate_limit_answer_def api_error_prefix_def)

text \<open>
  Claim C1. When the retrieval step returns zero documents, \<open>generate_answer\<close>
  returns the fixed answer that asks the user to rephrase or to contact Student
  Services, with no sources, no retrieved documents and no distances, and sends no
  request to the generation service, whatever the credential and the service are.
\<close>

theorem generate_answer_no_documents:
  assumes "query_knowledge_base cquery collection question top_k =
             Inr \<lparr>qr_ids = [ids], qr_documents = [[]], qr_metadatas = [metas],
                  qr_distances = [dists]\<rparr>"
  shows "generate_answer builtin cquery api_key create question collection top_k =
           (Inr \<lparr>answer = no_documents_answer, sources = [], retrieved_docs = [],
                 distances = []\<rparr>, [])"
  unfolding generate_answer_def assms by (simp add: first_def)

theorem generate_answer_no_documents_witness:
  "generate_answer example_builtins empty_query (Some ''sk-key'')
     (\<lambda>request. Inr [''never used'']) ''where is the pool'' () 3
   = (Inr \<lparr>answer = no_documents_answer, sources = [], retrieved_docs = [],
           distances = []\<rparr>, [])"
  using generate_answer_no_documents [where cquery = empty_query and collection = "()" and question = "''where is the pool''"
      and top_k = 3 and ids = "[]" and metas = "[]" and dists = "[]" and builtin = example_builtins
      and api_key = "Some ''sk-key''" and create = "\<lambda>request. Inr [''never used'']"]
  by (simp add: query_knowledge_base_def empty_query_def)

text \<open>
  Claim C2. When the retrieval step returns at least one document (with the
  metadata the index builder writes) and the API key is absent (unset or empty),
  \<open>generate_answer\<close> returns the answer that names the missing key, with an empty
  sources list, and sends no request to the generation service: the key is tested
  before the client is built.
\<close>

theorem generate_answer_missing_credential:
  assumes "query_knowledge_base cquery collection question top_k =
             Inr \<lparr>qr_ids = [ids], qr_documents = [docs], qr_metadatas = [metas],
                  qr_distances = [dists]\<rparr>"
      and "docs \<noteq> []"
      and "list_all has_name_and_type metas"
      and "api_key = None \<or> api_key = Some []"
  shows "generate_answer builtin cquery api_key create question collection top_k =
           (Inr \<lparr>answer = missing_key_answer, sources = [], retrieved_docs = docs,
                 distances = dists\<rparr>, [])"
  using assms(4) unfolding generate_answer_retrieved [OF assms(1-3)] by simp

theorem generate_answer_missing_credential_witness:
  "generate_answer example_builtins example_query None
     (\<lambda>request. Inr [''never used'']) ''when does the library open'' () 3
   = (Inr \<lparr>answer = missing_key_answer, sources = [],
           retrieved_docs = [''Name: Main Library''], distances = [1 / 4]\<rparr>, [])"
  using generate_answer_missing_credential [where cquery = example_query and collection = "()"
      and question = "''when does the library open''"
      and top_k = 3 and ids = "[PStr ''lib01'']" and metas = "[example_metadata]"
      and dists = "[1 / 4]" and docs = "[''Name: Main Library'']" and builtin = example_builtins
      and api_key = None and create = "\<lambda>request. Inr [''never used'']"]
  by (simp add: query_knowledge_base_def example_query_def has_name_and_type_def
        example_metadata_def)

text \<open>
  Claim C5, as the code has it. With documents retrieved and a key present, a
  failing generation call is handled in three kinds: an authentication failure
  and a rate-limit failure each give a fixed answer text, and any other API error
  gives a fixed prefix followed by the error's own message, so this text varies
  with the error; the three texts are pairwise distinct, and the caller gets an
  answer with the sources, documents and distances of the retrieval. Any other
  exception propagates to the caller unchanged. One request was sent in each case.
\<close>

theorem generate_answer_classifies_failures:
  assumes "query_knowledge_base cquery collection question top_k =
             Inr \<lparr>qr_ids = [ids], qr_documents = [docs], qr_metadatas = [metas],
                  qr_distances = [dists]\<rparr>"
      and "docs \<noteq> []"
      and "list_all has_name_and_type metas"
      and "length metas = length ids"
      and "api_key = Some key" and "key \<noteq> []"
      and "create (sent_request key question docs metas dists) = Inl err"
  shows "generate_answer builtin cquery api_key create question collection top_k =
     (case err of
        AuthenticationError \<Rightarrow>
          (Inr \<lparr>answer = invalid_key_answer, sources = attributions ids metas,
                retrieved_docs = docs, distances = dists\<rparr>,
           [sent_request key question docs metas dists])
      | RateLimitError \<Rightarrow>
          (Inr \<lparr>answer = rate_limit_answer, sources = attributions ids metas,
                retrieved_docs = docs, distances = dists\<rparr>,
           [sent_request key question docs metas dists])
      | APIError msg \<Rightarrow>
          (Inr \<lparr>answer = api_error_prefix @ msg, sources = attributions ids metas,
                retrieved_docs = docs, distances = dists\<rparr>,
           [sent_request key question docs metas dists])
      | _ \<Rightarrow> (Inl err, [sent_request key question docs metas dists]))
    \<and> invalid_key_answer \<noteq> rate_limit_answer
    \<and> (\<forall>msg. api_error_prefix @ msg \<noteq> invalid_key_answer
             \<and> api_error_prefix @ msg \<noteq> rate_limit_answer)"
  unfolding generate_answer_attempted [OF assms(1-6)] assms(7)
  by (simp add: answer_text_of_def api_error_text_distinct split: py_error.splits)

theorem generate_answer_classifies_failures_witness:
  "generate_answer example_builtins example_query (Some ''sk-key'')
     (\<lambda>request. Inl RateLimitError) ''when does the library open'' () 3
   = (Inr \<lparr>answer = rate_limit_answer,
           sources = [\<lparr>src_id = PStr ''lib01'', src_name = PStr ''Main Library'',
                       src_type = PStr ''facility''\<rparr>],
           retrieved_docs = [''Name: Main Library''], distances = [1 / 4]\<rparr>,
      [sent_request ''sk-key'' ''when does the library open'' [''Name: Main Library'']
         [example_metadata] [1 / 4]])"
  using generate_answer_classifies_failures [where cquery = example_query and collection = "()"
      and question = "''when does the library open''"
      and top_k = 3 and ids = "[PStr ''lib01'']" and metas = "[example_metadata]"
      and dists = "[1 / 4]" and docs = "[''Name: Main Library'']" and builtin = example_builtins
      and api_key = "Some ''sk-key''" and key = "''sk-key''"
      and create = "\<lambda>request. Inl RateLimitError" and err = RateLimitError]
  by (simp add: query_knowledge_base_def example_query_def has_name_and_type_def
        example_metadata_def attributions_def)

text \<open>
  The claim as stated, with one fixed text per kind of failure, fails for the
  generic API error: two errors with different messages give different answers.
\<close>

theorem generate_answer_api_error_text_not_fixed:
  "fst (generate_answer example_builtins example_query (Some ''sk-key'')
          (\<lambda>request. Inl (APIError ''overloaded'')) ''when does the library open'' () 3)
   = Inr \<lparr>answer = api_error_prefix @ ''overloaded'',
          sources = [\<lparr>src_id = PStr ''lib01'', src_name = PStr ''Main Library'',
                      src_type = PStr ''facility''\<rparr>],
          retrieved_docs = [''Name: Main Library''], distances = [1 / 4]\<rparr>
   \<and> fst (generate_answer example_builtins example_query (Some ''sk-key'')
          (\<lambda>request. Inl (APIError ''timeout'')) ''when does the library open'' () 3)
   = Inr \<lparr>answer = api_error_prefix @ ''timeout'',
          sources = [\<lparr>src_id = PStr ''lib01'', src_name = PStr ''Main Library'',
                      src_type = PStr ''facility''\<rparr>],
          retrieved_docs = [''Name: Main Library''], distances = [1 / 4]\<rparr>
   \<and> api_error_prefix @ ''overloaded'' \<noteq> api_error_prefix @ ''timeout''"
  by (simp add: generate_answer_def query_knowledge_base_def example_query_def first_def
        example_metadata_def getitem_def build_context_block_def answer_text_of_def Let_def)

text \<open>
  Claim C9. With \<open>n \<ge> 1\<close> documents retrieved and a key present, whether the
  generation call returns a text or fails with an authentication, a rate-limit or
  another API error, the result carries the \<open>n\<close> source attributions built from
  the retrieved ids and metadata in retrieval order, and the retrieved documents
  and distances as they came.
\<close>

theorem generate_answer_keeps_sources:
  assumes "query_knowledge_base cquery collection question top_k =
             Inr \<lparr>qr_ids = [ids], qr_documents = [docs], qr_metadatas = [metas],
                  qr_distances = [dists]\<rparr>"
      and "docs \<noteq> []"
      and "list_all has_name_and_type metas"
      and "length metas = length docs" and "length ids = length docs"
      and "api_key = Some key" and "key \<noteq> []"
      and "create (sent_request key question docs metas dists) = Inr (reply # others)
           \<or> create (sent_request key question docs metas dists) = Inl AuthenticationError
           \<or> create (sent_request key question docs metas dists) = Inl RateLimitError
           \<or> create (sent_request key question docs metas dists) = Inl (APIError msg)"
  shows "\<exists>answer_text.
           generate_answer builtin cquery api_key create question collection top_k =
             (Inr \<lparr>answer = answer_text, sources = attributions ids metas,
                   retrieved_docs = docs, distances = dists\<rparr>,
              [sent_request key question docs metas dists])
         \<and> length (attributions ids metas) = length docs
         \<and> map src_id (attributions ids metas) = ids"
proof -
  have m: "length metas = length ids" using assms(4,5) by simp
  have "\<exists>answer_text.
          answer_text_of (create (sent_request key question docs metas dists)) = Inr answer_text"
    using assms(8) by (auto simp: answer_text_of_def first_def)
  moreover have "map src_id (attributions ids metas) = ids"
    using m unfolding attributions_def
    by (induction ids metas rule: list_induct2') simp_all
  ultimately show ?thesis
    unfolding generate_answer_attempted [OF assms(1-3) m assms(6,7)]
    using assms(5) m by (auto simp: attributions_def)
qed

theorem generate_answer_keeps_sources_witness:
  "generate_answer example_builtins example_query (Some ''sk-key'')
     (\<lambda>request. Inr [''It opens at 8am.'']) ''when does the library open'' () 3
   = (Inr \<lparr>answer = ''It opens at 8am.'',
           sources = [\<lparr>src_id = PStr ''lib01'', src_name = PStr ''Main Library'',
                       src_type = PStr ''facility''\<rparr>],
           retrieved_docs = [''Name: Main Library''], distances = [1 / 4]\<rparr>,
      [sent_request ''sk-key'' ''when does the library open'' [''Name: Main Library'']
         [example_metadata] [1 / 4]])"
proof -
  have a: "answer_text_of (Inr [''It opens at 8am.'']) = Inr ''It opens at 8am.''"
    by (simp add: answer_text_of_def first_def)
  show ?thesis
  using generate_answer_keeps_sources [where cquery = example_query and collection = "()"
      and question = "''when does the library open''"
      and top_k = 3 and ids = "[PStr ''lib01'']" and metas = "[example_metadata]"
      and dists = "[1 / 4]" and docs = "[''Name: Main Library'']" and builtin = example_builtins
      and api_key = "Some ''sk-key''" and key = "''sk-key''"
      and create = "\<lambda>request. Inr [''It opens at 8am.'']"
      and reply = "''It opens at 8am.''" and others = "[]"]
  by (simp add: query_knowledge_base_def example_query_def has_name_and_type_def
        example_metadata_def attributions_def generate_answer_def first_def getitem_def
        build_context_block_def a Let_def)
qed

text \<open>The blocks of the context, by position.\<close>

lemma context_blocks_map:
  "length metas = length docs \<Longrightarrow> length dists = length docs \<Longrightarrow>
   context_blocks i docs metas dists =
     map (\<lambda>j. ''--- Source '' @ show_nat (i + j) @ '' (similarity distance: ''
                @ format_4f (dists ! j) @ '') ---'' @ [CHR 0x0A] @ docs ! j @ [CHR 0x0A])
       [0..<length docs]"
proof (induction docs arbitrary: i metas dists)
  case Nil
  then show ?case by simp
next
  case (Cons doc docs)
  then obtain meta metas' distance dists' where
    m: "metas = meta # metas'" and d: "dists = distance # dists'"
    by (metis length_Suc_conv)
  have l: "length metas' = length docs" "length dists' = length docs"
    using Cons.prems m d by simp_all
  show ?case
    unfolding m d
    by (simp add: Cons.IH [OF l] upt_conv_Cons map_Suc_upt [symmetric] del: upt_Suc)
qed

text \<open>A formatted distance ends in a point and four decimal digits.\<close>

lemma format_4f_shape:
  "\<exists>whole frac. format_4f d = whole @ ''.'' @ frac \<and> length frac = 4
     \<and> set frac \<subseteq> set ''0123456789''"
proof -
  have dc: "digit_char n \<in> set ''0123456789''" for n
    unfolding digit_char_def by (rule nth_mem) simp
  show ?thesis
    unfolding format_4f_def Let_def
    apply (rule exI [where x = "(if d < 0 then ''-'' else []) @ show_nat (nat (round_half_even (\<bar>d\<bar> * 10000)) div 10000)"])
    apply (rule exI [where x = "[digit_char (nat (round_half_even (\<bar>d\<bar> * 10000)) div 1000), digit_char (nat (round_half_even (\<bar>d\<bar> * 10000)) div 100), digit_char (nat (round_half_even (\<bar>d\<bar> * 10000)) div 10), digit_char (nat (round_half_even (\<bar>d\<bar> * 10000)))]"])
    using dc by simp
qed

text \<open>
  Claim C8. For a retrieval result (one document, metadata and distance per hit),
  \<open>build_context_block\<close> gives one block per retrieved document, in retrieval
  order: a header with the 1-based rank and the distance with four decimals, then
  the document; every block ends with a newline and the blocks are joined by a
  newline, which leaves a blank line between them. For zero documents the block
  is the empty string. The result depends on the retrieval result only.
\<close>

theorem build_context_block_renders:
  assumes "length metas = length docs" and "length dists = length docs"
  shows "build_context_block \<lparr>qr_ids = [ids], qr_documents = [docs], qr_metadatas = [metas],
             qr_distances = [dists]\<rparr> =
           Inr (join [CHR 0x0A]
             (map (\<lambda>j. ''--- Source '' @ show_nat (Suc j) @ '' (similarity distance: ''
                        @ format_4f (dists ! j) @ '') ---'' @ [CHR 0x0A]
                        @ docs ! j @ [CHR 0x0A])
                [0..<length docs]))
         \<and> (\<forall>d. \<exists>whole frac. format_4f d = whole @ ''.'' @ frac \<and> length frac = 4
                \<and> set frac \<subseteq> set ''0123456789'')
         \<and> (docs = [] \<longrightarrow>
              build_context_block \<lparr>qr_ids = [ids], qr_documents = [docs],
                qr_metadatas = [metas], qr_distances = [dists]\<rparr> = Inr [])"
proof -
  have "build_context_block \<lparr>qr_ids = [ids], qr_documents = [docs], qr_metadatas = [metas],
             qr_distances = [dists]\<rparr> =
           Inr (join [CHR 0x0A]
             (map (\<lambda>j. ''--- Source '' @ show_nat (Suc j) @ '' (similarity distance: ''
                        @ format_4f (dists ! j) @ '') ---'' @ [CHR 0x0A]
                        @ docs ! j @ [CHR 0x0A])
                [0..<length docs]))"
    by (simp add: build_context_block_def first_def context_blocks_map [OF assms])
  then show ?thesis
    using format_4f_shape by auto
qed

lemma floor_rat_numeral: "\<lfloor>numeral a / numeral b :: rat\<rfloor> = numeral a div numeral b"
  by (metis floor_divide_of_int_eq of_int_numeral)

theorem build_context_block_renders_witness:
  "build_context_block \<lparr>qr_ids = [[PStr ''lib01'', PStr ''gym02'']],
      qr_documents = [[''Name: Main Library'', ''Name: Gym'']],
      qr_metadatas = [[example_metadata, example_metadata]],
      qr_distances = [[1 / 32, 2 / 3]]\<rparr>
   = Inr (''--- Source 1 (similarity distance: 0.0312) ---'' @ [CHR 0x0A]
        @ ''Name: Main Library'' @ [CHR 0x0A] @ [CHR 0x0A]
        @ ''--- Source 2 (similarity distance: 0.6667) ---'' @ [CHR 0x0A]
        @ ''Name: Gym'' @ [CHR 0x0A])"
proof -
  have s0: "show_nat 0 = ''0''" by (subst show_nat.simps) (simp add: digit_char_def)
  have s1: "show_nat (Suc 0) = ''1''" by (subst show_nat.simps) (simp add: digit_char_def)
  have s2: "show_nat (Suc (Suc 0)) = ''2''" by (subst show_nat.simps) (simp add: digit_char_def)
  have f1: "format_4f (1 / 32) = ''0.0312''"
    by (simp add: format_4f_def round_half_even_def Let_def s0 digit_char_def floor_rat_numeral)
  have f2: "format_4f (2 / 3) = ''0.6667''"
    by (simp add: format_4f_def round_half_even_def Let_def s0 digit_char_def floor_rat_numeral)
  note e = s1 s2 f1 f2
  show ?thesis
    using build_context_block_renders [where docs = "[''Name: Main Library'', ''Name: Gym'']"
        and metas = "[example_metadata, example_metadata]"
        and dists = "[1 / 32, 2 / 3]" and ids = "[PStr ''lib01'', PStr ''gym02'']"]
    by (simp add: e upt_conv_Cons del: upt_Suc)
qed

section \<open>Properties of the retriever\<close>

text \<open>
  The first \<open>n\<close> entries of a list sorted by a key: they are entries of the list,
  in non-decreasing key order, no entry left out has a smaller key, and they are
  all the entries when \<open>n\<close> reaches the length.
\<close>

lemma ranked_take_sort:
  fixes key :: "'a \<Rightarrow> rat"
  defines "ranked \<equiv> \<lambda>n xs. take n (sort_key key xs)"
  shows "length (ranked n xs) = min n (length xs)"
    and "mset (ranked n xs) \<subseteq># mset xs"
    and "sorted (map key (ranked n xs))"
    and "length xs \<le> n \<Longrightarrow> mset (ranked n xs) = mset xs"
    and "\<forall>r \<in> set (ranked n xs). \<forall>e \<in># mset xs - mset (ranked n xs). key r \<le> key e"
proof -
  let ?s = "sort_key key xs"
  have split: "mset xs = mset (take n ?s) + mset (drop n ?s)"
    by (metis append_take_drop_id mset_append mset_sort)
  show "length (ranked n xs) = min n (length xs)"
    by (simp add: ranked_def min.commute)
  show "mset (ranked n xs) \<subseteq># mset xs"
    unfolding ranked_def using split by simp
  show "sorted (map key (ranked n xs))"
    unfolding ranked_def take_map [symmetric] by (rule sorted_wrt_take) (rule sorted_sort_key)
  show "mset (ranked n xs) = mset xs" if "length xs \<le> n"
    unfolding ranked_def using that by simp
  have rest: "mset xs - mset (take n ?s) = mset (drop n ?s)"
    using split by simp
  have "sorted (map key (take n ?s) @ map key (drop n ?s))"
    by (metis append_take_drop_id map_append sorted_sort_key)
  then have "\<forall>r \<in> set (take n ?s). \<forall>e \<in> set (drop n ?s). key r \<le> key e"
    by (auto simp: sorted_append)
  then show "\<forall>r \<in> set (ranked n xs). \<forall>e \<in># mset xs - mset (ranked n xs). key r \<le> key e"
    unfolding ranked_def rest by simp
qed

text \<open>
  Claim C4. For \<open>k > 0\<close>, \<open>query_knowledge_base\<close> on the store's query returns,
  for the single query text, the ids, documents, metadata and distances of a
  list \<open>ranked\<close> of \<open>min k (index size)\<close> entries of the index, each distance being
  that of the entry's embedding to the embedding of the question, in
  non-decreasing order of distance, and no entry left out is nearer than one
  returned; when \<open>k\<close> is at least the index size these are all the entries of the
  index, and on an empty index the result is empty, not an error.
\<close>

theorem query_knowledge_base_top_k:
  assumes "0 < top_k"
  shows "\<exists>ranked.
           query_knowledge_base (collection_query ef distance_of) entries query top_k =
             Inr \<lparr>qr_ids = [map ie_id ranked],
                  qr_documents = [map ie_document ranked],
                  qr_metadatas = [map ie_metadata ranked],
                  qr_distances = [map (\<lambda>e. distance_of (ef query) (ie_embedding e)) ranked]\<rparr>
         \<and> length ranked = min (nat top_k) (length entries)
         \<and> mset ranked \<subseteq># mset entries
         \<and> sorted (map (\<lambda>e. distance_of (ef query) (ie_embedding e)) ranked)
         \<and> (\<forall>r \<in> set ranked. \<forall>e \<in># mset entries - mset ranked.
               distance_of (ef query) (ie_embedding r) \<le> distance_of (ef query) (ie_embedding e))
         \<and> (length entries \<le> nat top_k \<longrightarrow> mset ranked = mset entries)
         \<and> (entries = [] \<longrightarrow> ranked = [])"
proof -
  let ?key = "\<lambda>e. distance_of (ef query) (ie_embedding e)"
  let ?ranked = "take (nat top_k) (sort_key ?key entries)"
  have "query_knowledge_base (collection_query ef distance_of) entries query top_k =
          Inr \<lparr>qr_ids = [map ie_id ?ranked], qr_documents = [map ie_document ?ranked],
               qr_metadatas = [map ie_metadata ?ranked], qr_distances = [map ?key ?ranked]\<rparr>"
    by (simp add: query_knowledge_base_def collection_query_def Let_def)
  moreover have "length ?ranked = min (nat top_k) (length entries)"
    by (rule ranked_take_sort(1))
  moreover have "mset ?ranked \<subseteq># mset entries"
    by (rule ranked_take_sort(2))
  moreover have "sorted (map ?key ?ranked)"
    by (rule ranked_take_sort(3))
  moreover have "\<forall>r \<in> set ?ranked. \<forall>e \<in># mset entries - mset ?ranked. ?key r \<le> ?key e"
    by (rule ranked_take_sort(5))
  moreover have "length entries \<le> nat top_k \<longrightarrow> mset ?ranked = mset entries"
    using ranked_take_sort(4) [of entries "nat top_k" ?key] by blast
  moreover have "entries = [] \<longrightarrow> ?ranked = []"
    by simp
  ultimately show ?thesis
    by blast
qed

theorem query_knowledge_base_top_k_witness:
  "query_knowledge_base (collection_query (\<lambda>q. 0) (\<lambda>a b. of_nat b - of_nat a))
     example_entries ''where'' 2 =
     Inr \<lparr>qr_ids = [[PStr ''b'', PStr ''c'']], qr_documents = [[''near'', ''middle'']],
          qr_metadatas = [[[], []]], qr_distances = [[1, 4]]\<rparr>
   \<and> query_knowledge_base (collection_query (\<lambda>q. 0) (\<lambda>a b. of_nat b - of_nat a))
     example_entries ''where'' 5 =
     Inr \<lparr>qr_ids = [[PStr ''b'', PStr ''c'', PStr ''a'']],
          qr_documents = [[''near'', ''middle'', ''far'']],
          qr_metadatas = [[[], [], []]], qr_distances = [[1, 4, 9]]\<rparr>
   \<and> query_knowledge_base (collection_query (\<lambda>q. 0) (\<lambda>a b. of_nat b - of_nat a))
     [] ''where'' 3 =
     Inr \<lparr>qr_ids = [[]], qr_documents = [[]], qr_metadatas = [[]], qr_distances = [[]]\<rparr>"
  using query_knowledge_base_top_k [where top_k = 2 and ef = "\<lambda>q. 0::nat" and distance_of = "\<lambda>a b. of_nat b - of_nat a"
      and entries = example_entries and query = "''where''"]
  by (simp add: query_knowledge_base_def collection_query_def example_entries_def Let_def)

section \<open>Properties of the index builder\<close>

lemma docs_added_append: "docs_added (xs @ ys) = docs_added xs + docs_added ys"
  by (induction xs rule: docs_added.induct) simp_all

lemma docs_added_replicate_Formatted: "docs_added (replicate n Formatted) = 0"
  by (induction n) simp_all

lemma well_formed_record_document:
  assumes "well_formed_record entry"
  shows "entry_to_document builtin entry = Inr (record_document builtin entry)"
proof -
  obtain name type location description contact items where
    "map_of entry ''name'' = Some name" "map_of entry ''type'' = Some type"
    "map_of entry ''location'' = Some location"
    "map_of entry ''description'' = Some description"
    "map_of entry ''contact'' = Some contact"
    "py_iter (case map_of entry ''additional_info'' of None \<Rightarrow> PList [] | Some v \<Rightarrow> v)
       = Inr items"
    using assms
    by (auto simp: well_formed_record_def required_fields_def split: sum.splits)
  then show ?thesis
    unfolding record_document_def by (simp add: entry_to_document_render)
qed

lemma populate_loop_well_formed:
  "list_all well_formed_record data \<Longrightarrow>
   populate_loop builtin data (documents, ids, metadatas) w =
     (Inr (documents @ map (record_document builtin) data, ids @ map record_id data,
           metadatas @ map record_metadata data),
      w\<lparr>trace := trace w @ replicate (length data) Formatted\<rparr>)"
proof (induction data arbitrary: documents ids metadatas w)
  case Nil
  then show ?case by simp
next
  case (Cons entry data)
  have wf: "well_formed_record entry" and rest: "list_all well_formed_record data"
    using Cons.prems by simp_all
  have keys: "getitem entry ''id'' = Inr (record_id entry)"
    "getitem entry ''name'' = Inr (the (map_of entry ''name''))"
    "getitem entry ''type'' = Inr (the (map_of entry ''type''))"
    "getitem entry ''location'' = Inr (the (map_of entry ''location''))"
    "getitem entry ''contact'' = Inr (the (map_of entry ''contact''))"
    using wf by (auto simp: well_formed_record_def required_fields_def getitem_def record_id_def)
  show ?case
    by (simp add: well_formed_record_document [OF wf] keys Cons.IH [OF rest] Let_def
          record_metadata_def replicate_app_Cons_same)
qed

lemma get_or_create_collection_skip:
  assumes "collection_entries CHROMA_COLLECTION_NAME w \<noteq> []"
  shows "get_or_create_collection False builtin ef campus_file w =
           (Inr CHROMA_COLLECTION_NAME, w)"
  using assms
  by (auto simp: get_or_create_collection_def client_get_or_create_collection_def
        collection_count_def collection_entries_def Let_def split: option.splits)

lemma get_or_create_collection_build:
  assumes "collection_entries CHROMA_COLLECTION_NAME w = []"
      and "list_all well_formed_record data"
      and "distinct (map record_id data)"
  shows "get_or_create_collection False builtin ef (Inr data) w =
           (Inr CHROMA_COLLECTION_NAME,
            w\<lparr>collections := (collections w)(CHROMA_COLLECTION_NAME \<mapsto>
                  map (index_entry_of builtin ef) data),
               trace := trace w @ [Loaded] @ replicate (length data) Formatted
                          @ [Added (length data)]\<rparr>)"
proof -
  have z: "zip (map record_id data)
             (zip (map (record_document builtin) data) (map record_metadata data))
           = map (\<lambda>entry. (record_id entry, record_document builtin entry, record_metadata entry))
               data"
    by (induction data) simp_all
  have ie: "(\<lambda>entry. \<lparr>ie_id = record_id entry, ie_document = record_document builtin entry,
                ie_metadata = record_metadata entry,
                ie_embedding = ef (record_document builtin entry)\<rparr>)
            = index_entry_of builtin ef"
    by (rule ext) (simp add: index_entry_of_def)
  show ?thesis
    using assms
    by (auto simp: get_or_create_collection_def client_get_or_create_collection_def
          collection_count_def collection_entries_def Let_def load_campus_data_def
          populate_loop_well_formed collection_add_def z ie comp_def
          split: option.splits)
qed

text \<open>The metadata the builder writes has the keys the pipeline reads.\<close>

lemma built_metadata_has_name_and_type:
  "has_name_and_type (ie_metadata (index_entry_of builtin ef entry))"
  by (simp add: has_name_and_type_def index_entry_of_def record_metadata_def)

text \<open>
  With \<open>reset\<close>, a collection that exists is discarded and built again from the
  corpus.
\<close>

lemma get_or_create_collection_reset:
  assumes "collections w CHROMA_COLLECTION_NAME = Some es"
      and "list_all well_formed_record data"
      and "distinct (map record_id data)"
  shows "get_or_create_collection True builtin ef (Inr data) w =
           (Inr CHROMA_COLLECTION_NAME,
            w\<lparr>collections := (collections w)(CHROMA_COLLECTION_NAME \<mapsto>
                  map (index_entry_of builtin ef) data),
               trace := trace w @ [Deleted, Loaded] @ replicate (length data) Formatted
                          @ [Added (length data)]\<rparr>)"
proof -
  have z: "zip (map record_id data)
             (zip (map (record_document builtin) data) (map record_metadata data))
           = map (\<lambda>entry. (record_id entry, record_document builtin entry, record_metadata entry))
               data"
    by (induction data) simp_all
  have ie: "(\<lambda>entry. \<lparr>ie_id = record_id entry, ie_document = record_document builtin entry,
                ie_metadata = record_metadata entry,
                ie_embedding = ef (record_document builtin entry)\<rparr>)
            = index_entry_of builtin ef"
    by (rule ext) (simp add: index_entry_of_def)
  show ?thesis
    using assms
    by (simp add: get_or_create_collection_def delete_collection_def
          client_get_or_create_collection_def
          collection_count_def collection_entries_def Let_def load_campus_data_def
          populate_loop_well_formed collection_add_def z ie comp_def)
qed

text \<open>
  Claim C3. Called as every caller does, without reset, on an index that already
  holds an entry, \<open>get_or_create_collection\<close> returns it with the world
  unchanged, whatever the corpus file is: nothing is loaded, rendered, embedded or
  inserted. Called twice in sequence on an index that is absent or empty, with a
  corpus of well-formed records with unique ids, the first call builds one entry
  per record and the second call succeeds and leaves the collections and the entry
  count as the first left them, with no further document embedded or inserted;
  when the corpus is not empty the second call leaves the whole world, trace
  included, unchanged.
\<close>

theorem get_or_create_collection_idempotent:
  "(collection_entries CHROMA_COLLECTION_NAME w \<noteq> [] \<longrightarrow>
      get_or_create_collection False builtin ef campus_file w =
        (Inr CHROMA_COLLECTION_NAME, w))
   \<and> (collection_entries CHROMA_COLLECTION_NAME w = [] \<and> list_all well_formed_record data
        \<and> distinct (map record_id data) \<longrightarrow>
      (\<exists>w1 w2.
         get_or_create_collection False builtin ef (Inr data) w =
           (Inr CHROMA_COLLECTION_NAME, w1)
       \<and> get_or_create_collection False builtin ef (Inr data) w1 =
           (Inr CHROMA_COLLECTION_NAME, w2)
       \<and> collection_entries CHROMA_COLLECTION_NAME w1 = map (index_entry_of builtin ef) data
       \<and> collection_count CHROMA_COLLECTION_NAME w1 = int (length data)
       \<and> docs_added (trace w1) = docs_added (trace w) + length data
       \<and> collections w2 = collections w1
       \<and> collection_count CHROMA_COLLECTION_NAME w2 = collection_count CHROMA_COLLECTION_NAME w1
       \<and> docs_added (trace w2) = docs_added (trace w1)
       \<and> (data \<noteq> [] \<longrightarrow> w2 = w1)))"
proof (intro conjI impI)
  assume "collection_entries CHROMA_COLLECTION_NAME w \<noteq> []"
  then show "get_or_create_collection False builtin ef campus_file w =
               (Inr CHROMA_COLLECTION_NAME, w)"
    by (rule get_or_create_collection_skip)
next
  assume a: "collection_entries CHROMA_COLLECTION_NAME w = [] \<and> list_all well_formed_record data
        \<and> distinct (map record_id data)"
  define w1 where "w1 = built_world builtin ef data w"
  have first: "get_or_create_collection False builtin ef (Inr data) w =
                 (Inr CHROMA_COLLECTION_NAME, w1)"
    unfolding w1_def built_world_def using a by (simp add: get_or_create_collection_build)
  have entries: "collection_entries CHROMA_COLLECTION_NAME w1 = map (index_entry_of builtin ef) data"
    by (simp add: w1_def built_world_def collection_entries_def)
  have added: "docs_added (trace w1) = docs_added (trace w) + length data"
    by (simp add: w1_def built_world_def docs_added_append docs_added_replicate_Formatted)
  show "\<exists>w1 w2.
         get_or_create_collection False builtin ef (Inr data) w =
           (Inr CHROMA_COLLECTION_NAME, w1)
       \<and> get_or_create_collection False builtin ef (Inr data) w1 =
           (Inr CHROMA_COLLECTION_NAME, w2)
       \<and> collection_entries CHROMA_COLLECTION_NAME w1 = map (index_entry_of builtin ef) data
       \<and> collection_count CHROMA_COLLECTION_NAME w1 = int (length data)
       \<and> docs_added (trace w1) = docs_added (trace w) + length data
       \<and> collections w2 = collections w1
       \<and> collection_count CHROMA_COLLECTION_NAME w2 = collection_count CHROMA_COLLECTION_NAME w1
       \<and> docs_added (trace w2) = docs_added (trace w1)
       \<and> (data \<noteq> [] \<longrightarrow> w2 = w1)"
  proof (cases "data = []")
    case False
    then have "collection_entries CHROMA_COLLECTION_NAME w1 \<noteq> []"
      by (simp add: entries)
    then have "get_or_create_collection False builtin ef (Inr data) w1 =
                 (Inr CHROMA_COLLECTION_NAME, w1)"
      by (rule get_or_create_collection_skip)
    then show ?thesis
      using first entries added by (auto simp: collection_count_def)
  next
    case True
    have e1: "collection_entries CHROMA_COLLECTION_NAME w1 = []"
      by (simp add: entries True)
    have second: "get_or_create_collection False builtin ef (Inr data) w1 =
                 (Inr CHROMA_COLLECTION_NAME, built_world builtin ef data w1)"
      unfolding built_world_def using a e1
      by (simp add: get_or_create_collection_build)
    have "collections (built_world builtin ef data w1) = collections w1"
      by (simp add: built_world_def w1_def)
    moreover have "docs_added (trace (built_world builtin ef data w1)) = docs_added (trace w1)"
      by (simp add: built_world_def True docs_added_append)
    ultimately show ?thesis
      using first second entries added True
      by (auto simp: collection_count_def collection_entries_def)
  qed
qed

theorem get_or_create_collection_idempotent_witness:
  "get_or_create_collection False example_builtins length (Inr [example_record]) empty_world =
     (Inr CHROMA_COLLECTION_NAME,
      \<lparr>collections = [CHROMA_COLLECTION_NAME \<mapsto>
           [index_entry_of example_builtins length example_record]],
       trace = [Loaded, Formatted, Added 1]\<rparr>)
   \<and> get_or_create_collection False example_builtins length (Inl OSError)
       \<lparr>collections = [CHROMA_COLLECTION_NAME \<mapsto>
           [index_entry_of example_builtins length example_record]],
        trace = [Loaded, Formatted, Added 1]\<rparr> =
     (Inr CHROMA_COLLECTION_NAME,
      \<lparr>collections = [CHROMA_COLLECTION_NAME \<mapsto>
           [index_entry_of example_builtins length example_record]],
       trace = [Loaded, Formatted, Added 1]\<rparr>)"
proof -
  have wf: "well_formed_record example_record"
    by (simp add: well_formed_record_def example_record_def required_fields_def)
  have "get_or_create_collection False example_builtins length (Inr [example_record]) empty_world =
          (Inr CHROMA_COLLECTION_NAME, built_world example_builtins length [example_record] empty_world)"
    unfolding built_world_def
    by (rule get_or_create_collection_build) (simp_all add: wf collection_entries_def empty_world_def)
  then show ?thesis
    using get_or_create_collection_idempotent [where w = empty_world and data = "[example_record]" and builtin = example_builtins
             and ef = length]
          get_or_create_collection_idempotent [where w = "\<lparr>collections = [CHROMA_COLLECTION_NAME \<mapsto>
                   [index_entry_of example_builtins length example_record]],
                 trace = [Loaded, Formatted, Added 1]\<rparr>"
             and campus_file = "Inl OSError" and builtin = example_builtins and ef = length]
    by (simp add: built_world_def empty_world_def collection_entries_def wf)
qed

end
